theory Spec2Isabelle
  imports Main "HOL-Library.Multiset" "HOL-Library.AList"
begin

section \<open>Python values used by bot.py\<close>

text \<open>
  The bot is a single Python module, \<^verbatim>\<open>src/bot.py\<close>. Its handlers mutate three pieces of
  state: the process-wide dictionary \<^verbatim>\<open>bot_data\<close> (administrator id, players, queue,
  active flag), the JSON file \<^verbatim>\<open>game_state.json\<close> (location states, the queue written
  by \<^verbatim>\<open>begin\<close>, the status string) and the per-user dictionary \<^verbatim>\<open>user_data\<close> (the
  location a user has chosen to guess at). Every handler is modelled as a function
  from the state before to the state after, paired with the reply it sends.

  Exceptions the handlers can run into are values of \<open>py_error\<close>.
\<close>

datatype py_error = IndexError | KeyError

subsection \<open>Strings\<close>

text \<open>
  A Python string is a sequence of code points. It is modelled as a list over a type of
  characters \<open>'c\<close> that is left open: nothing in the handlers depends on which
  characters there are. The methods \<^verbatim>\<open>str.upper\<close>, \<^verbatim>\<open>str.lower\<close> and \<^verbatim>\<open>str.strip\<close> belong to
  Python, not to the bot; they are parameters of the model (the fields \<open>str_upper\<close>,
  \<open>str_lower\<close> and \<open>str_strip\<close> of the environment below, and the first argument of
  \<open>compare_word\<close>), functions from strings to strings of which nothing is assumed. In
  particular \<^verbatim>\<open>str.upper\<close> may change the length of a string. Display names, time
  stamps and the colour names are ordinary strings.
\<close>

section \<open>compare_word and score_from\<close>

text \<open>
  \<^verbatim>\<open>compare_word(guess, target)\<close>, lines 77 to 93. Both words are upper-cased (with
  \<^verbatim>\<open>str.upper\<close>, the parameter \<open>upper\<close>), the result list starts all \<^verbatim>\<open>"gray"\<close> with the
  length of the upper-cased guess, and two loops run over the positions of that guess.

  The first loop reads \<^verbatim>\<open>target[i]\<close> for every position \<open>i\<close> of the guess: it raises
  \<^verbatim>\<open>IndexError\<close> when the target is shorter than the guess. It marks \<^verbatim>\<open>"green"\<close> where
  the letters agree and appends the target letter to \<^verbatim>\<open>remaining\<close> where they do not.
  \<open>first_pass\<close> returns the result list and \<^verbatim>\<open>remaining\<close> after that loop; both are
  built left to right, as in the source.
\<close>

fun first_pass :: "'c list \<Rightarrow> 'c list \<Rightarrow> py_error + (string list \<times> 'c list)" where
  "first_pass [] target = Inr ([], [])"
| "first_pass (ch # guess) [] = Inl IndexError"
| "first_pass (ch # guess) (t # target) =
     (case first_pass guess target of
        Inl e \<Rightarrow> Inl e
      | Inr (res, remaining) \<Rightarrow>
          if ch = t then Inr (''green'' # res, remaining)
          else Inr (''gray'' # res, t # remaining))"

text \<open>
  The second loop: a position still \<^verbatim>\<open>"gray"\<close> whose letter is in \<^verbatim>\<open>remaining\<close> becomes
  \<^verbatim>\<open>"yellow"\<close>, and \<^verbatim>\<open>remaining.remove(ch)\<close> deletes the first occurrence of the letter.
\<close>

fun second_pass :: "'c list \<Rightarrow> string list \<Rightarrow> 'c list \<Rightarrow> string list" where
  "second_pass (ch # guess) (r # res) remaining =
     (if r = ''gray'' \<and> ch \<in> set remaining
      then ''yellow'' # second_pass guess res (remove1 ch remaining)
      else r # second_pass guess res remaining)"
| "second_pass [] res remaining = res"
| "second_pass guess [] remaining = []"

definition compare_word ::
  "('c list \<Rightarrow> 'c list) \<Rightarrow> 'c list \<Rightarrow> 'c list \<Rightarrow> py_error + string list" where
  "compare_word upper guess target =
     (let guess = upper guess; target = upper target in
      case first_pass guess target of
        Inl e \<Rightarrow> Inl e
      | Inr (res, remaining) \<Rightarrow> Inr (second_pass guess res remaining))"

text \<open>\<^verbatim>\<open>score_from(colours)\<close>, lines 96 to 98: 10 per green, 5 per yellow, 0 otherwise.\<close>

definition score_from :: "string list \<Rightarrow> int" where
  "score_from colours =
     sum_list (map (\<lambda>c. if c = ''green'' then 10 else if c = ''yellow'' then 5 else 0) colours)"

subsection \<open>The two-pass rule as the specification words it\<close>





section \<open>The state of the bot\<close>

text \<open>
  A player is the dictionary stored under \<^verbatim>\<open>bot_data["players"][uid]\<close> by \<^verbatim>\<open>join\<close>. The keys
  of \<^verbatim>\<open>players\<close> are \<^verbatim>\<open>str(user.id)\<close>; the conversion is injective, so the model keys the
  players and the queue by the user id itself. Python dictionaries keep insertion order,
  and \<^verbatim>\<open>begin\<close> reads the keys in that order, so \<^verbatim>\<open>players\<close> is an association list:
  \<open>map_of\<close> looks a key up and \<open>AList.update\<close> assigns (in place for a key that is
  present, at the end for a new one). Time stamps are the strings that
  \<^verbatim>\<open>datetime.utcnow().isoformat()\<close> returns; the clock is an input of the model.
\<close>

record player =
  username :: string
  score :: int
  last_active :: string

record bot_data =
  admin_id :: int
  players :: "(int \<times> player) list"
  queue :: "int list"
  state_game_active :: bool

text \<open>
  The snapshot file \<^verbatim>\<open>game_state.json\<close> holds a dictionary with the keys
  \<^verbatim>\<open>"buildings"\<close>, \<^verbatim>\<open>"queue"\<close> and \<^verbatim>\<open>"game_state"\<close>, each of which may be missing; an entry
  of \<^verbatim>\<open>"buildings"\<close> is \<^verbatim>\<open>{"id", "last_attempt", "is_closed"}\<close>. The file is modelled by the
  dictionary it holds (\<^verbatim>\<open>json.dump\<close> followed by \<^verbatim>\<open>json.load\<close> returns an equal
  dictionary for these values), \<open>None\<close> when the file does not exist.
\<close>

record 'c attempt =
  a_user_id :: int
  a_username :: string
  a_time :: string
  a_word :: "'c list"

record 'c dyn =
  dyn_id :: int
  last_attempt :: "'c attempt option"
  is_closed :: bool

record 'c snapshot =
  sn_buildings :: "'c dyn list option"
  sn_queue :: "int list option"
  sn_game_state :: "string option"

text \<open>
  \<^verbatim>\<open>config.json\<close> and the word list \<^verbatim>\<open>New_rus.txt\<close> are not part of the sources; they are
  parameters of the model. Of a configured building only \<^verbatim>\<open>id\<close> and \<^verbatim>\<open>target_word\<close> are
  read by the handlers modelled here. The environment also holds Python's three string
  methods.
\<close>

record 'c building =
  b_id :: int
  target_word :: "'c list"

record 'c env =
  cfg_buildings :: "'c building list"
  WORDS :: "'c list set"
  str_upper :: "'c list \<Rightarrow> 'c list"
  str_lower :: "'c list \<Rightarrow> 'c list"
  str_strip :: "'c list \<Rightarrow> 'c list"

record 'c world =
  bot :: bot_data
  state_file :: "'c snapshot option"
  user_data :: "int \<Rightarrow> int option"

text \<open>
  The replies. The source answers with Russian message texts; each constructor stands for
  one of them, named after the outcome it reports. \<open>Raised e\<close> is an exception that leaves
  the handler.
\<close>

datatype reply =
    AdminCannotJoin | AlreadyJoined | Joined
  | AdminOnly | NoPlayers | Started int
  | NotRegistered | NotStarted | NoReply
  | NotYourTurn | InvalidLength | NotInDictionary
  | LocationNotFound | DuplicateGuess | LocationClosed
  | Solved "string list" | Scored "string list" int
  | TargetMenu "int list" | InvalidTarget
  | StealSuccess int | StealFailure int
  | AllClosed | GuessMenu "int list" | Prompt
  | ResetDone | Answered
  | Raised py_error

subsection \<open>load_json and save_state\<close>

text \<open>
  \<^verbatim>\<open>load_json(path)\<close>, lines 65 to 67: the dictionary in the file, the empty dictionary when
  there is no file. \<^verbatim>\<open>save_state(state)\<close>, lines 70 to 74: writes a temporary file and
  renames it over \<^verbatim>\<open>game_state.json\<close>; its result here is the new content of the file.
\<close>

definition empty_snapshot :: "'c snapshot" where
  "empty_snapshot = \<lparr>sn_buildings = None, sn_queue = None, sn_game_state = None\<rparr>"

definition load_json :: "'c snapshot option \<Rightarrow> 'c snapshot" where
  "load_json file = (case file of None \<Rightarrow> empty_snapshot | Some d \<Rightarrow> d)"

definition save_state :: "'c snapshot \<Rightarrow> 'c snapshot option" where
  "save_state state = Some state"

text \<open>\<^verbatim>\<open>state.get("buildings", [])\<close>.\<close>

definition get_buildings :: "'c snapshot \<Rightarrow> 'c dyn list" where
  "get_buildings state = (case sn_buildings state of None \<Rightarrow> [] | Some ds \<Rightarrow> ds)"

subsection \<open>The queue\<close>

text \<open>
  \<^verbatim>\<open>advance_queue(ctx)\<close>, lines 165 to 179. On an empty queue it returns at once. Otherwise
  \<^verbatim>\<open>q.append(q.pop(0))\<close> moves the head to the tail, the active flag is set, and the name of
  the new head is looked up for the notification: \<^verbatim>\<open>players[next_uid]\<close> raises
  \<^verbatim>\<open>KeyError\<close> for an id that is not registered, after the queue has been rotated.
\<close>

definition advance_queue :: "bot_data \<Rightarrow> bot_data \<times> py_error option" where
  "advance_queue bd =
     (case queue bd of
        [] \<Rightarrow> (bd, None)
      | x # q \<Rightarrow>
          (let bd' = bd\<lparr>queue := q @ [x], state_game_active := True\<rparr>;
               next_uid = hd (q @ [x])
           in case map_of (players bd') next_uid of
                None \<Rightarrow> (bd', Some KeyError)
              | Some p \<Rightarrow> (bd', None)))"

text \<open>\<open>advance_n n\<close> is \<^verbatim>\<open>advance_queue\<close> called \<open>n\<close> times on the same \<^verbatim>\<open>bot_data\<close>.\<close>

fun advance_n :: "nat \<Rightarrow> bot_data \<Rightarrow> bot_data" where
  "advance_n 0 bd = bd"
| "advance_n (Suc n) bd = advance_n n (fst (advance_queue bd))"

section \<open>The handlers\<close>

subsection \<open>join\<close>

text \<open>
  \<^verbatim>\<open>join(upd, ctx)\<close>, lines 250 to 269. The administrator and a registered user are turned
  away. Otherwise the player is stored with score 0 and
  \<^verbatim>\<open>ctx.bot_data["queue"].append(uid)\<close> puts the user at the tail of the queue. The display
  name is \<^verbatim>\<open>user.username or user.full_name\<close>.
\<close>

definition display_name :: "string option \<Rightarrow> string \<Rightarrow> string" where
  "display_name uname full_name =
     (case uname of None \<Rightarrow> full_name | Some u \<Rightarrow> if u = [] then full_name else u)"

definition join ::
  "'c world \<Rightarrow> int \<Rightarrow> string option \<Rightarrow> string \<Rightarrow> string \<Rightarrow> 'c world \<times> reply" where
  "join w uid uname full_name now =
     (let bd = bot w in
      if uid = admin_id bd then (w, AdminCannotJoin)
      else if map_of (players bd) uid \<noteq> None then (w, AlreadyJoined)
      else
        (w\<lparr>bot := bd\<lparr>players :=
                      AList.update uid
                        \<lparr>username = display_name uname full_name, score = 0, last_active = now\<rparr>
                        (players bd),
                    queue := queue bd @ [uid]\<rparr>\<rparr>,
         Joined))"

subsection \<open>begin\<close>

text \<open>
  \<^verbatim>\<open>begin(upd, ctx)\<close>, lines 272 to 300, behind \<^verbatim>\<open>@admin_only\<close>. \<^verbatim>\<open>random.shuffle\<close> is the
  parameter \<open>shuffle\<close>. The queue becomes the shuffled list of all player ids, the
  snapshot gets a fresh list of buildings when \<^verbatim>\<open>state.get("buildings")\<close> is missing or
  empty, the queue and the status \<^verbatim>\<open>"active"\<close> are written, and the active flag is set.
  The reply names the first player: \<^verbatim>\<open>players[players[0]]\<close>, read after all of that.
\<close>

definition fresh_buildings :: "'c env \<Rightarrow> 'c dyn list" where
  "fresh_buildings e =
     map (\<lambda>b. \<lparr>dyn_id = b_id b, last_attempt = None, is_closed = False\<rparr>) (cfg_buildings e)"

definition begin_game ::
  "'c env \<Rightarrow> (int list \<Rightarrow> int list) \<Rightarrow> 'c world \<Rightarrow> int \<Rightarrow> 'c world \<times> reply" where
  "begin_game e shuffle w uid =
     (let bd = bot w in
      if uid \<noteq> admin_id bd then (w, AdminOnly)
      else if map fst (players bd) = [] then (w, NoPlayers)
      else
        (let ps = shuffle (map fst (players bd));
             state = load_json (state_file w);
             state1 = (if get_buildings state = []
                       then state\<lparr>sn_buildings := Some (fresh_buildings e)\<rparr> else state);
             state2 = state1\<lparr>sn_queue := Some ps, sn_game_state := Some ''active''\<rparr>;
             w' = w\<lparr>bot := bd\<lparr>queue := ps, state_game_active := True\<rparr>,
                    state_file := save_state state2\<rparr>
         in case ps of
              [] \<Rightarrow> (w', Raised IndexError)
            | first # _ \<Rightarrow>
                (case map_of (players bd) first of
                   None \<Rightarrow> (w', Raised KeyError)
                 | Some p \<Rightarrow> (w', Started first))))"

subsection \<open>handle_guess_word\<close>

text \<open>
  \<^verbatim>\<open>handle_guess_word(upd, ctx)\<close>, lines 454 to 533, behind \<^verbatim>\<open>@active_player\<close> (registered,
  then game active). In the order of the source: no pending \<^verbatim>\<open>guess_building_id\<close> returns
  silently; the head of the queue must be the user; the pending id is popped from
  \<^verbatim>\<open>user_data\<close>; the text is stripped and upper-cased (with the string methods of the
  environment); length, dictionary (on the lower-cased word), and the
  configured building are checked; the snapshot is loaded and the building's entry looked
  up (\<^verbatim>\<open>{}\<close> when none has the id); the duplicate check; the closed check; then the
  attempt is scored and recorded, the snapshot saved and the queue advanced.

  \<^verbatim>\<open>dyn\<close> is the first entry with the id, mutated in place, and the list written back puts
  it at every entry with that id. When no entry has the id the changes go to a fresh
  dictionary that is not part of the list. The clock is read twice (\<open>t1\<close>, \<open>t2\<close>).
\<close>

definition record_attempt :: "'c dyn \<Rightarrow> 'c attempt \<Rightarrow> bool \<Rightarrow> 'c dyn" where
  "record_attempt d a solved =
     (let d1 = d\<lparr>last_attempt := Some a\<rparr> in if solved then d1\<lparr>is_closed := True\<rparr> else d1)"

definition handle_guess_word ::
  "'c env \<Rightarrow> 'c world \<Rightarrow> int \<Rightarrow> 'c list \<Rightarrow> string \<Rightarrow> string \<Rightarrow> 'c world \<times> reply" where
  "handle_guess_word e w uid text t1 t2 =
     (let bd = bot w in
      (case map_of (players bd) uid of
         None \<Rightarrow> (w, NotRegistered)
       | Some player \<Rightarrow>
      (if \<not> state_game_active bd then (w, NotStarted) else
      (case user_data w uid of
         None \<Rightarrow> (w, NoReply)
       | Some b \<Rightarrow>
      (case queue bd of
         [] \<Rightarrow> (w, Raised IndexError)
       | cur # _ \<Rightarrow>
      (if cur \<noteq> uid then (w, NotYourTurn) else
      (let w1 = w\<lparr>user_data := (user_data w)(uid := None)\<rparr>;
           word = str_upper e (str_strip e text)
       in
      (if length word \<noteq> 5 then (w1, InvalidLength) else
      (if str_lower e word \<notin> WORDS e then (w1, NotInDictionary) else
      (case find (\<lambda>c. b_id c = b) (cfg_buildings e) of
         None \<Rightarrow> (w1, LocationNotFound)
       | Some building \<Rightarrow>
      (let state = load_json (state_file w1);
           found = find (\<lambda>d. dyn_id d = b) (get_buildings state);
           last = (case found of None \<Rightarrow> None | Some d \<Rightarrow> last_attempt d)
       in
      (if (case last of None \<Rightarrow> False | Some a \<Rightarrow> str_upper e (a_word a) = word)
       then (w1, DuplicateGuess) else
      (if (case found of None \<Rightarrow> False | Some d \<Rightarrow> is_closed d)
       then (w1, LocationClosed) else
      (case compare_word (str_upper e) word (target_word building) of
         Inl err \<Rightarrow> (w1, Raised err)
       | Inr colours \<Rightarrow>
      (let points = score_from colours;
           player' = player\<lparr>score := score player + points, last_active := t1\<rparr>;
           a = \<lparr>a_user_id = uid, a_username = username player', a_time = t2, a_word = word\<rparr>;
           solved = (str_upper e word = str_upper e (target_word building));
           buildings' = (case found of
                           None \<Rightarrow> get_buildings state
                         | Some d \<Rightarrow>
                             map (\<lambda>x. if dyn_id x \<noteq> b then x else record_attempt d a solved)
                               (get_buildings state));
           file' = save_state (state\<lparr>sn_buildings := Some buildings'\<rparr>);
           adv = advance_queue (bd\<lparr>players := AList.update uid player' (players bd)\<rparr>)
       in
       (w1\<lparr>bot := fst adv, state_file := file'\<rparr>,
        (case snd adv of
           Some err \<Rightarrow> Raised err
         | None \<Rightarrow> if solved then Solved colours else Scored colours points)))))))))))))))))"

subsection \<open>steal_handler\<close>

text \<open>
  The data of a callback query, as far as \<^verbatim>\<open>callback_handler\<close> tells them apart:
  \<^verbatim>\<open>"guess"\<close>, \<^verbatim>\<open>"guess:<id>"\<close>, \<^verbatim>\<open>"steal"\<close>, \<^verbatim>\<open>"steal:<uid>"\<close>, \<^verbatim>\<open>"reset_game"\<close>, and anything else
  (menu, score, board and unknown data, which change nothing but the pending guess).
\<close>

datatype callback =
  CbGuess | CbGuessId int | CbSteal | CbStealTarget int | CbResetGame | CbOther

text \<open>
  \<^verbatim>\<open>steal_handler(upd, ctx)\<close>, lines 558 to 606, behind \<^verbatim>\<open>@active_player\<close>. For \<^verbatim>\<open>"steal"\<close> the
  head of the queue must be the user and the other players are listed. For
  \<^verbatim>\<open>"steal:<uid>"\<close> the victim is looked up with \<^verbatim>\<open>players.get\<close>, a missing one is reported,
  and the die (\<^verbatim>\<open>random.randint(1, 6)\<close>, the parameter \<open>dice\<close>) decides the transfer; then
  the queue advances. \<^verbatim>\<open>thief\<close> and \<^verbatim>\<open>victim\<close> are the dictionaries stored in \<^verbatim>\<open>players\<close>,
  changed in place one after the other, so the model updates the store twice.
\<close>

definition adjust_score :: "int \<Rightarrow> int \<Rightarrow> (int \<times> player) list \<Rightarrow> (int \<times> player) list" where
  "adjust_score uid delta ps =
     (case map_of ps uid of
        None \<Rightarrow> ps
      | Some p \<Rightarrow> AList.update uid (p\<lparr>score := score p + delta\<rparr>) ps)"

definition steal_handler :: "'c world \<Rightarrow> int \<Rightarrow> callback \<Rightarrow> int \<Rightarrow> 'c world \<times> reply" where
  "steal_handler w uid data dice =
     (let bd = bot w in
      (case map_of (players bd) uid of
         None \<Rightarrow> (w, NotRegistered)
       | Some thief \<Rightarrow>
      (if \<not> state_game_active bd then (w, NotStarted) else
      (case data of
         CbSteal \<Rightarrow>
           (case queue bd of
              [] \<Rightarrow> (w, Raised IndexError)
            | cur # _ \<Rightarrow>
                if cur \<noteq> uid then (w, NotYourTurn)
                else (w, TargetMenu (filter (\<lambda>pid. pid \<noteq> uid) (map fst (players bd)))))
       | CbStealTarget target_id \<Rightarrow>
           (case map_of (players bd) target_id of
              None \<Rightarrow> (w, InvalidTarget)
            | Some victim \<Rightarrow>
                (let ps = (if 5 \<le> dice
                           then adjust_score target_id (- 10) (adjust_score uid 10 (players bd))
                           else adjust_score target_id 2 (adjust_score uid (- 2) (players bd)));
                     adv = advance_queue (bd\<lparr>players := ps\<rparr>)
                 in (w\<lparr>bot := fst adv\<rparr>,
                     (case snd adv of
                        Some err \<Rightarrow> Raised err
                      | None \<Rightarrow> if 5 \<le> dice then StealSuccess dice else StealFailure dice))))
       | _ \<Rightarrow> (w, Answered)))))"

subsection \<open>reset_game, callback_handler and main\<close>

text \<open>
  \<^verbatim>\<open>reset_game(upd, ctx)\<close>, lines 609 to 617, behind \<^verbatim>\<open>@admin_only\<close>: the snapshot file is
  deleted, players and queue are emptied and the active flag cleared.
\<close>

definition reset_game :: "'c world \<Rightarrow> int \<Rightarrow> 'c world \<times> reply" where
  "reset_game w uid =
     (if uid \<noteq> admin_id (bot w) then (w, AdminOnly)
      else (w\<lparr>bot := (bot w)\<lparr>players := [], queue := [], state_game_active := False\<rparr>,
              state_file := None\<rparr>,
            ResetDone))"

text \<open>
  \<^verbatim>\<open>callback_handler(upd, ctx)\<close>, lines 638 to 707. A pending guess (a truthy
  \<^verbatim>\<open>guess_building_id\<close>, so not the id 0) is dropped unless the data is \<^verbatim>\<open>"guess"\<close> or
  \<^verbatim>\<open>"guess:<id>"\<close>. \<^verbatim>\<open>"guess"\<close> lists the configured buildings whose entry is not closed;
  \<^verbatim>\<open>"guess:<id>"\<close> stores the pending id.
\<close>

definition is_guess_data :: "callback \<Rightarrow> bool" where
  "is_guess_data data = (case data of CbGuess \<Rightarrow> True | CbGuessId _ \<Rightarrow> True | _ \<Rightarrow> False)"

definition open_buildings :: "'c env \<Rightarrow> 'c snapshot \<Rightarrow> int list" where
  "open_buildings e state =
     map b_id
       (filter (\<lambda>c. case find (\<lambda>d. dyn_id d = b_id c) (get_buildings state) of
                      None \<Rightarrow> True
                    | Some d \<Rightarrow> \<not> is_closed d)
          (cfg_buildings e))"

definition callback_handler ::
  "'c env \<Rightarrow> 'c world \<Rightarrow> int \<Rightarrow> callback \<Rightarrow> int \<Rightarrow> 'c world \<times> reply" where
  "callback_handler e w uid data dice =
     (let pending = (case user_data w uid of None \<Rightarrow> False | Some b \<Rightarrow> b \<noteq> 0);
          w0 = (if pending \<and> \<not> is_guess_data data
                then w\<lparr>user_data := (user_data w)(uid := None)\<rparr> else w)
      in case data of
           CbGuess \<Rightarrow>
             (let rows = open_buildings e (load_json (state_file w0))
              in if rows = [] then (w0, AllClosed) else (w0, GuessMenu rows))
         | CbGuessId b \<Rightarrow> (w0\<lparr>user_data := (user_data w0)(uid \<mapsto> b)\<rparr>, Prompt)
         | CbSteal \<Rightarrow> steal_handler w0 uid data dice
         | CbStealTarget t \<Rightarrow> steal_handler w0 uid data dice
         | CbResetGame \<Rightarrow> reset_game w0 uid
         | CbOther \<Rightarrow> (w0, Answered))"

text \<open>
  \<^verbatim>\<open>main()\<close>, lines 711 to 734, sets up \<^verbatim>\<open>bot_data\<close>: the configured administrator, no
  players, an empty queue, not active. It reads nothing from \<^verbatim>\<open>game_state.json\<close>; the file
  is whatever an earlier run left.
\<close>

definition main :: "int \<Rightarrow> 'c snapshot option \<Rightarrow> 'c world" where
  "main admin file =
     \<lparr>bot = \<lparr>admin_id = admin, players = [], queue = [], state_game_active = False\<rparr>,
      state_file = file,
      user_data = (\<lambda>_. None)\<rparr>"

subsection \<open>Events and runs\<close>

text \<open>
  What reaches the handlers: the commands \<^verbatim>\<open>/join\<close> and \<^verbatim>\<open>/begin\<close>, a text message (handled
  by \<^verbatim>\<open>handle_guess_word\<close>) and a callback query. Each carries the sender's id and the
  values the handler draws from the outside (names, clock, shuffle, die). The other
  commands (\<^verbatim>\<open>/start\<close>, \<^verbatim>\<open>/menu\<close>, \<^verbatim>\<open>/score\<close>, \<^verbatim>\<open>/rules\<close>) only read the state and are not
  events here.
\<close>

datatype 'c event =
    Join int "string option" string string
  | Begin int "int list \<Rightarrow> int list"
  | Text int "'c list" string string
  | Callback int callback int

fun step :: "'c env \<Rightarrow> 'c world \<Rightarrow> 'c event \<Rightarrow> 'c world \<times> reply" where
  "step e w (Join uid uname full_name now) = join w uid uname full_name now"
| "step e w (Begin uid shuffle) = begin_game e shuffle w uid"
| "step e w (Text uid text t1 t2) = handle_guess_word e w uid text t1 t2"
| "step e w (Callback uid data dice) = callback_handler e w uid data dice"

fun run :: "'c env \<Rightarrow> 'c world \<Rightarrow> 'c event list \<Rightarrow> 'c world" where
  "run e w [] = w"
| "run e w (ev # evs) = run e (fst (step e w ev)) evs"

text \<open>
  The states a run reaches from a start of the process with no snapshot file.
\<close>

inductive reachable :: "'c env \<Rightarrow> int \<Rightarrow> 'c world \<Rightarrow> bool" for e :: "'c env" and admin :: int where
  start: "reachable e admin (main admin None)"
| after: "reachable e admin w \<Longrightarrow> reachable e admin (fst (step e w ev))"


text \<open>
  The entry the handlers read for a location (the first with the id) and its closed flag
  as \<^verbatim>\<open>dyn.get("is_closed")\<close> reads it.
\<close>

definition dyn_of :: "'c snapshot option \<Rightarrow> int \<Rightarrow> 'c dyn option" where
  "dyn_of file b = find (\<lambda>d. dyn_id d = b) (get_buildings (load_json file))"

definition loc_closed :: "'c snapshot option \<Rightarrow> int \<Rightarrow> bool" where
  "loc_closed file b = (case dyn_of file b of None \<Rightarrow> False | Some d \<Rightarrow> is_closed d)"

section \<open>Preconditions of a guess\<close>

text \<open>
  \<open>guess_word\<close> is the word the handler works with, \<^verbatim>\<open>text.strip().upper()\<close> of line 468.
  \<open>passes_checks\<close> collects the checks \<^verbatim>\<open>handle_guess_word\<close> makes before it loads the
  snapshot: the user is registered, the game is active, a location \<open>b\<close> is pending, the
  user heads the queue, the word has five letters and its lower-cased form is in the
  dictionary, and the location is configured. \<open>is_duplicate\<close> is the duplicate test of
  lines 488 to 489 on the entry of the location, \<^verbatim>\<open>last["word"].upper() == word\<close>, and
  \<open>accepted\<close> tells the replies of a recorded attempt from all others.
\<close>

definition guess_word :: "'c env \<Rightarrow> 'c list \<Rightarrow> 'c list" where
  "guess_word e text = str_upper e (str_strip e text)"

definition passes_checks :: "'c env \<Rightarrow> 'c world \<Rightarrow> int \<Rightarrow> int \<Rightarrow> 'c list \<Rightarrow> bool" where
  "passes_checks e w uid b text \<longleftrightarrow>
     map_of (players (bot w)) uid \<noteq> None
   \<and> state_game_active (bot w)
   \<and> user_data w uid = Some b
   \<and> queue (bot w) \<noteq> [] \<and> hd (queue (bot w)) = uid
   \<and> length (guess_word e text) = 5
   \<and> str_lower e (guess_word e text) \<in> WORDS e
   \<and> find (\<lambda>c. b_id c = b) (cfg_buildings e) \<noteq> None"

definition is_duplicate :: "'c env \<Rightarrow> 'c snapshot option \<Rightarrow> int \<Rightarrow> 'c list \<Rightarrow> bool" where
  "is_duplicate e file b text =
     (case dyn_of file b of
        None \<Rightarrow> False
      | Some d \<Rightarrow>
          (case last_attempt d of
             None \<Rightarrow> False
           | Some a \<Rightarrow> str_upper e (a_word a) = guess_word e text))"

definition accepted :: "reply \<Rightarrow> bool" where
  "accepted r = (case r of Solved _ \<Rightarrow> True | Scored _ _ \<Rightarrow> True | _ \<Rightarrow> False)"

section \<open>Example states\<close>

text \<open>Concrete players, words and states on which the theorems below are evaluated.\<close>

definition ann :: player where
  "ann = \<lparr>username = ''ann'', score = 0, last_active = ''t0''\<rparr>"

definition bob :: player where
  "bob = \<lparr>username = ''bob'', score = 0, last_active = ''t1''\<rparr>"

definition cat :: player where
  "cat = \<lparr>username = ''cat'', score = 0, last_active = ''t2''\<rparr>"

definition bd3 :: bot_data where
  "bd3 = \<lparr>admin_id = 0, players = [(1, ann), (2, bob), (3, cat)], queue = [2, 3, 1],
          state_game_active = True\<rparr>"

text \<open>
  The examples are run on ASCII text, with characters of type \<open>char\<close>. On ASCII strings
  \<^verbatim>\<open>str.upper\<close> and \<^verbatim>\<open>str.lower\<close> exchange the letters a to z and A to Z and leave every
  other character alone, and \<^verbatim>\<open>str.strip\<close> removes the characters 9 to 13 and 28 to 32
  from both ends; \<open>ascii_upper\<close>, \<open>ascii_lower\<close> and \<open>ascii_strip\<close> do that. They are used
  for the examples only: every theorem that is not about an example holds for all string
  methods.
\<close>

definition ascii_lowercase :: string where
  "ascii_lowercase = ''abcdefghijklmnopqrstuvwxyz''"

definition ascii_uppercase :: string where
  "ascii_uppercase = ''ABCDEFGHIJKLMNOPQRSTUVWXYZ''"

definition ascii_upper_chr :: "char \<Rightarrow> char" where
  "ascii_upper_chr c =
     (case map_of (zip ascii_lowercase ascii_uppercase) c of Some u \<Rightarrow> u | None \<Rightarrow> c)"

definition ascii_lower_chr :: "char \<Rightarrow> char" where
  "ascii_lower_chr c =
     (case map_of (zip ascii_uppercase ascii_lowercase) c of Some l \<Rightarrow> l | None \<Rightarrow> c)"

definition ascii_upper :: "string \<Rightarrow> string" where
  "ascii_upper s = map ascii_upper_chr s"

definition ascii_lower :: "string \<Rightarrow> string" where
  "ascii_lower s = map ascii_lower_chr s"

definition ascii_isspace :: "char \<Rightarrow> bool" where
  "ascii_isspace c = (c \<in> set [CHR 0x09, CHR 0x0A, CHR 0x0B, CHR 0x0C, CHR 0x0D,
                           CHR 0x1C, CHR 0x1D, CHR 0x1E, CHR 0x1F, CHR 0x20])"

definition ascii_strip :: "string \<Rightarrow> string" where
  "ascii_strip s = rev (dropWhile ascii_isspace (rev (dropWhile ascii_isspace s)))"



text \<open>
  A configuration with two locations and a small dictionary; two users join a fresh
  process and the administrator (id 0) begins the game with the identity shuffle.
\<close>

definition env0 :: "char env" where
  "env0 = \<lparr>cfg_buildings = [\<lparr>b_id = 1, target_word = ''PEACH''\<rparr>,
                             \<lparr>b_id = 2, target_word = ''ALLOW''\<rparr>],
           WORDS = {''peach'', ''cheap'', ''allow'', ''lolly''},
           str_upper = ascii_upper, str_lower = ascii_lower, str_strip = ascii_strip\<rparr>"

definition snap0 :: "char snapshot" where
  "snap0 = \<lparr>sn_buildings = Some [\<lparr>dyn_id = 1, last_attempt = None, is_closed = False\<rparr>,
                                   \<lparr>dyn_id = 2, last_attempt = None, is_closed = False\<rparr>],
            sn_queue = Some [1, 2], sn_game_state = Some ''active''\<rparr>"

definition w_joined :: "char world" where
  "w_joined = run env0 (main 0 None)
     [Join 1 (Some ''ann'') ''Ann'' ''t0'', Join 2 (Some ''bob'') ''Bob'' ''t1'']"

definition w_started :: "char world" where
  "w_started = fst (step env0 w_joined (Begin 0 (\<lambda>xs. xs)))"

text \<open>
  The run continues: user 1 picks location 1 and guesses CHEAP (all yellow, 25 points),
  user 2 picks location 1 and guesses PEACH (solved, 50 points, the location closes), and
  user 1 picks the closed location again.
\<close>

definition w_pick1 :: "char world" where
  "w_pick1 = fst (step env0 w_started (Callback 1 (CbGuessId 1) 0))"

definition w_tried :: "char world" where
  "w_tried = fst (step env0 w_pick1 (Text 1 ''cheap'' ''t3'' ''t4''))"

definition w_pick2 :: "char world" where
  "w_pick2 = fst (step env0 w_tried (Callback 2 (CbGuessId 1) 0))"

definition w_closed :: "char world" where
  "w_closed = fst (step env0 w_pick2 (Text 2 ''peach'' ''t5'' ''t6''))"

definition w_pick3 :: "char world" where
  "w_pick3 = fst (step env0 w_closed (Callback 1 (CbGuessId 1) 0))"

definition cheap_by_ann :: "char attempt" where
  "cheap_by_ann = \<lparr>a_user_id = 1, a_username = ''ann'', a_time = ''t4'', a_word = ''CHEAP''\<rparr>"

definition peach_by_bob :: "char attempt" where
  "peach_by_bob = \<lparr>a_user_id = 2, a_username = ''bob'', a_time = ''t6'', a_word = ''PEACH''\<rparr>"

definition snap_tried :: "char snapshot" where
  "snap_tried = \<lparr>sn_buildings = Some [\<lparr>dyn_id = 1, last_attempt = Some cheap_by_ann, is_closed = False\<rparr>,
                                       \<lparr>dyn_id = 2, last_attempt = None, is_closed = False\<rparr>],
                 sn_queue = Some [1, 2], sn_game_state = Some ''active''\<rparr>"

definition snap_closed :: "char snapshot" where
  "snap_closed = \<lparr>sn_buildings = Some [\<lparr>dyn_id = 1, last_attempt = Some peach_by_bob, is_closed = True\<rparr>,
                                        \<lparr>dyn_id = 2, last_attempt = None, is_closed = False\<rparr>],
                  sn_queue = Some [1, 2], sn_game_state = Some ''active''\<rparr>"

section \<open>The scorer\<close>

lemma score_from_Nil: "score_from [] = 0"
  by (simp add: score_from_def)

lemma score_from_Cons:
  "score_from (c # cs) =
     (if c = ''green'' then 10 else if c = ''yellow'' then 5 else 0) + score_from cs"
  by (simp add: score_from_def)

lemma score_from_nonneg: "0 \<le> score_from cs"
  by (induction cs) (simp_all add: score_from_Nil score_from_Cons)

lemma score_from_count:
  "score_from cs = 10 * int (count_list cs ''green'') + 5 * int (count_list cs ''yellow'')"
  by (induction cs) (simp_all add: score_from_Nil score_from_Cons)

lemma score_from_zero_iff:
  "score_from cs = 0 \<longleftrightarrow> ''green'' \<notin> set cs \<and> ''yellow'' \<notin> set cs"
proof (induction cs)
  case Nil
  show ?case by (simp add: score_from_Nil)
next
  case (Cons c cs)
  have "0 \<le> score_from cs" by (rule score_from_nonneg)
  with Cons show ?case by (auto simp: score_from_Cons)
qed

text \<open>
  Claim C9. For every classification sequence (a list over green, yellow and gray),
  \<open>score_from\<close> returns 10 times the number of green entries plus 5 times the number of
  yellow entries, gray entries adding nothing, and the total is 0 exactly when every
  entry is gray.
\<close>

theorem score_from_total:
  assumes "set cs \<subseteq> {''green'', ''yellow'', ''gray''}"
  shows "score_from cs = 10 * int (count_list cs ''green'') + 5 * int (count_list cs ''yellow'')
       \<and> (score_from cs = 0 \<longleftrightarrow> (\<forall>c \<in> set cs. c = ''gray''))"
proof -
  have "(''green'' \<notin> set cs \<and> ''yellow'' \<notin> set cs) \<longleftrightarrow> (\<forall>c \<in> set cs. c = ''gray'')"
    using assms by auto
  then show ?thesis
    using score_from_count [of cs] score_from_zero_iff [of cs] by simp
qed

theorem score_from_total_witness:
  "set [''green'', ''gray'', ''yellow''] \<subseteq> {''green'', ''yellow'', ''gray''}
   \<and> score_from [''green'', ''gray'', ''yellow''] = 15
   \<and> score_from [''gray'', ''gray''] = 0"
  using score_from_total [of "[''green'', ''gray'', ''yellow'']"]
        score_from_total [of "[''gray'', ''gray'']"]
  by simp

section \<open>The comparator\<close>


lemma first_pass_short:
  "length target < length guess \<Longrightarrow> first_pass guess target = Inl IndexError"
  by (induction guess target rule: first_pass.induct) auto





lemma compare_word_short_target:
  "length (up target) < length (up guess) \<Longrightarrow> compare_word up guess target = Inl IndexError"
  by (simp add: compare_word_def Let_def first_pass_short)











lemmas upper_simps = ascii_upper_def ascii_upper_chr_def ascii_lowercase_def ascii_uppercase_def

lemmas lower_simps = ascii_lower_def ascii_lower_chr_def ascii_lowercase_def ascii_uppercase_def







section \<open>The turn queue\<close>

lemma advance_queue_queue: "queue (fst (advance_queue bd)) = rotate1 (queue bd)"
  by (simp add: advance_queue_def Let_def split: list.splits option.splits)

lemma advance_queue_players: "players (fst (advance_queue bd)) = players bd"
  by (simp add: advance_queue_def Let_def split: list.splits option.splits)

lemma advance_queue_admin: "admin_id (fst (advance_queue bd)) = admin_id bd"
  by (simp add: advance_queue_def Let_def split: list.splits option.splits)

lemma advance_queue_empty: "queue bd = [] \<Longrightarrow> advance_queue bd = (bd, None)"
  by (simp add: advance_queue_def)

lemma advance_queue_no_error:
  "set (queue bd) \<subseteq> fst ` set (players bd) \<Longrightarrow> snd (advance_queue bd) = None"
proof (cases "queue bd")
  case Nil
  then show ?thesis by (simp add: advance_queue_def)
next
  case (Cons x q)
  assume sub: "set (queue bd) \<subseteq> fst ` set (players bd)"
  have "hd (q @ [x]) \<in> set (queue bd)"
    using Cons by (cases q) auto
  then have "hd (q @ [x]) \<in> fst ` set (players bd)" using sub by blast
  then obtain p where "map_of (players bd) (hd (q @ [x])) = Some p"
    by (metis map_of_eq_None_iff not_Some_eq)
  then show ?thesis using Cons by (simp add: advance_queue_def Let_def)
qed

lemma advance_n_queue: "queue (advance_n n bd) = rotate n (queue bd)"
  by (induction n arbitrary: bd) (simp_all add: advance_queue_queue rotate1_rotate_swap)

lemma advance_n_players: "players (advance_n n bd) = players bd"
  by (induction n arbitrary: bd) (simp_all add: advance_queue_players)

text \<open>
  Claim C8. \<open>advance_queue\<close> rotates the queue left by one, the head moving to the tail.
  Called as many times as the queue is long it gives the original order back, on an
  empty queue it changes nothing and raises nothing, and on a queue of registered
  players no call raises.
\<close>

theorem advance_queue_rotates:
  assumes "set (queue bd) \<subseteq> fst ` set (players bd)"
  shows "queue (fst (advance_queue bd)) = rotate1 (queue bd)
       \<and> queue (advance_n (length (queue bd)) bd) = queue bd
       \<and> snd (advance_queue (advance_n k bd)) = None
       \<and> advance_queue (bd\<lparr>queue := []\<rparr>) = (bd\<lparr>queue := []\<rparr>, None)"
proof -
  have "set (queue (advance_n k bd)) \<subseteq> fst ` set (players (advance_n k bd))"
    using assms by (simp add: advance_n_queue advance_n_players)
  then have "snd (advance_queue (advance_n k bd)) = None"
    by (rule advance_queue_no_error)
  then show ?thesis
    by (simp add: advance_queue_queue advance_n_queue advance_queue_empty)
qed

theorem advance_queue_rotates_witness:
  "set (queue bd3) \<subseteq> fst ` set (players bd3)
   \<and> queue (fst (advance_queue bd3)) = [3, 1, 2]
   \<and> queue (advance_n 3 bd3) = [2, 3, 1]
   \<and> snd (advance_queue bd3) = None"
proof -
  have h: "set (queue bd3) \<subseteq> fst ` set (players bd3)" by (simp add: bd3_def)
  have q: "queue bd3 = [2, 3, 1]" by (simp add: bd3_def)
  have "queue (fst (advance_queue bd3)) = rotate1 (queue bd3)
       \<and> queue (advance_n (length (queue bd3)) bd3) = queue bd3
       \<and> snd (advance_queue (advance_n 0 bd3)) = None"
    using advance_queue_rotates [OF h, of 0] by blast
  then show ?thesis using h by (simp add: q eval_nat_numeral)
qed

section \<open>Example runs\<close>

lemma w_joined_eq:
  "w_joined = \<lparr>bot = \<lparr>admin_id = 0, players = [(1, ann), (2, bob)], queue = [1, 2],
                      state_game_active = False\<rparr>,
               state_file = None, user_data = (\<lambda>_. None)\<rparr>"
  by (simp add: Let_def w_joined_def main_def join_def display_name_def ann_def bob_def)

lemma w_started_eq:
  "w_started = \<lparr>bot = \<lparr>admin_id = 0, players = [(1, ann), (2, bob)], queue = [1, 2],
                      state_game_active = True\<rparr>,
               state_file = Some snap0, user_data = (\<lambda>_. None)\<rparr>"
  by (simp add: Let_def w_started_def w_joined_eq begin_game_def load_json_def save_state_def
      empty_snapshot_def get_buildings_def fresh_buildings_def env0_def snap0_def)

section \<open>Joining\<close>

lemma map_of_update_absent:
  "map_of ps k = None \<Longrightarrow> AList.update k v ps = ps @ [(k, v)]"
  by (induction ps) (auto split: if_splits)

text \<open>
  Claim C6, as amended. \<open>join\<close> of a user who is not the administrator and not yet
  registered stores the player with score 0 at the end of \<open>players\<close> and appends the
  user's id to the tail of the queue, whether or not the game is active; nothing else
  changes. A \<open>begin\<close> by the administrator after that replaces the queue by the shuffled
  list of all registered ids.
\<close>

theorem join_appends_to_queue:
  assumes "uid \<noteq> admin_id (bot w)" and "map_of (players (bot w)) uid = None"
  shows "join w uid uname full_name now =
           (w\<lparr>bot := (bot w)\<lparr>players := players (bot w) @
                                 [(uid, \<lparr>username = display_name uname full_name, score = 0,
                                         last_active = now\<rparr>)],
                             queue := queue (bot w) @ [uid]\<rparr>\<rparr>, Joined)
       \<and> queue (bot (fst (begin_game e shuffle (fst (join w uid uname full_name now))
                             (admin_id (bot w))))) =
           shuffle (map fst (players (bot w)) @ [uid])"
proof -
  have j: "join w uid uname full_name now =
           (w\<lparr>bot := (bot w)\<lparr>players := players (bot w) @
                                 [(uid, \<lparr>username = display_name uname full_name, score = 0,
                                         last_active = now\<rparr>)],
                             queue := queue (bot w) @ [uid]\<rparr>\<rparr>, Joined)"
    using assms by (simp add: join_def Let_def map_of_update_absent)
  show ?thesis
    unfolding j by (simp add: begin_game_def Let_def split: list.splits option.splits)
qed

theorem join_appends_to_queue_witness:
  "(1::int) \<noteq> admin_id (bot (main 0 None :: char world))
   \<and> map_of (players (bot (main 0 None :: char world))) 1 = None
   \<and> players (bot (fst (join (main 0 None :: char world) 1 (Some ''ann'') ''Ann'' ''t0''))) =
       [(1, ann)]
   \<and> queue (bot (fst (join (main 0 None :: char world) 1 (Some ''ann'') ''Ann'' ''t0''))) = [1]"
proof -
  have a: "(1::int) \<noteq> admin_id (bot (main 0 None :: char world))"
    and b: "map_of (players (bot (main 0 None :: char world))) 1 = None"
    by (simp_all add: main_def)
  show ?thesis
    using join_appends_to_queue [OF a b, of "Some ''ann''" "''Ann''" "''t0''" env0 "\<lambda>xs. xs"] a b
    by (simp add: main_def display_name_def ann_def)
qed



text \<open>
  The claim as stated fails: before any \<open>begin\<close>, the first \<open>join\<close> already changes the
  queue from empty to the joined user.
\<close>

theorem join_queue_counterexample:
  "queue (bot (main 0 None)) = []
   \<and> \<not> state_game_active (bot (main 0 None))
   \<and> queue (bot (fst (join (main 0 None) 1 (Some ''ann'') ''Ann'' ''t0''))) = [1]
   \<and> queue (bot (fst (join (main 0 None) 1 (Some ''ann'') ''Ann'' ''t0''))) \<noteq> queue (bot (main 0 None))"
  by (simp add: join_def main_def Let_def)

section \<open>Stealing\<close>

lemma map_of_adjust_score:
  "map_of (adjust_score k d ps) x =
     (if x = k then map_option (\<lambda>p. p\<lparr>score := score p + d\<rparr>) (map_of ps k) else map_of ps x)"
  by (simp add: adjust_score_def update_conv' split: option.splits)

lemma steal_players:
  assumes "map_of (players (bot w)) uid = Some thief"
    and "map_of (players (bot w)) target = Some victim"
    and "state_game_active (bot w)"
  shows "players (bot (fst (steal_handler w uid (CbStealTarget target) dice))) =
           (if 5 \<le> dice
            then adjust_score target (- 10) (adjust_score uid 10 (players (bot w)))
            else adjust_score target 2 (adjust_score uid (- 2) (players (bot w))))"
  using assms by (simp add: steal_handler_def Let_def advance_queue_players)

text \<open>
  Claim C7. A steal resolved between a registered thief and a different registered victim,
  with a die from 1 to 6 (the value of \<open>random.randint(1, 6)\<close>, an input here): a die of 5
  or 6 adds exactly 10 to the thief's score and takes exactly 10 from the victim's, any
  other die takes exactly 2 from the thief and adds exactly 2 to the victim; the two
  changes sum to 0 and the scores are integers without a floor.
\<close>

theorem steal_transfers:
  assumes "map_of (players (bot w)) uid = Some thief"
    and "map_of (players (bot w)) target = Some victim"
    and "state_game_active (bot w)"
    and "target \<noteq> uid"
    and "1 \<le> dice" and "dice \<le> 6"
  shows "\<exists>thief' victim'.
           map_of (players (bot (fst (steal_handler w uid (CbStealTarget target) dice)))) uid = Some thief'
         \<and> map_of (players (bot (fst (steal_handler w uid (CbStealTarget target) dice)))) target = Some victim'
         \<and> score thief' = score thief + (if 5 \<le> dice then 10 else - 2)
         \<and> score victim' = score victim + (if 5 \<le> dice then - 10 else 2)
         \<and> (score thief' - score thief) + (score victim' - score victim) = 0"
  using assms by (simp add: steal_players map_of_adjust_score)

theorem steal_transfers_witness:
  "map_of (players (bot w_started)) 1 = Some ann
   \<and> map_of (players (bot w_started)) 2 = Some bob
   \<and> state_game_active (bot w_started)
   \<and> map_option score (map_of (players (bot (fst (steal_handler w_started 1 (CbStealTarget 2) 3)))) 1) = Some (- 2)
   \<and> map_option score (map_of (players (bot (fst (steal_handler w_started 1 (CbStealTarget 2) 3)))) 2) = Some 2"
proof -
  have a: "map_of (players (bot w_started)) 1 = Some ann"
    and b: "map_of (players (bot w_started)) 2 = Some bob"
    and c: "state_game_active (bot w_started)"
    by (simp_all add: w_started_eq)
  have "(2::int) \<noteq> 1" "(1::int) \<le> 3" "(3::int) \<le> 6" by simp_all
  from steal_transfers [OF a b c this]
  show ?thesis using a b c by (auto simp: ann_def bob_def)
qed

text \<open>
  Claim C5, evaluated on the code. In \<open>w_started\<close> user 1 holds the turn. The branch for
  \<open>"steal"\<close> turns user 2 away, but the branch for \<open>"steal:<uid>"\<close> has no such check: user 2
  resolves a steal against user 1, the scores move and the queue advances. A steal of
  user 1 against himself is resolved too and advances the queue.
\<close>

theorem steal_out_of_turn:
  "hd (queue (bot w_started)) = 1
   \<and> steal_handler w_started 2 CbSteal 5 = (w_started, NotYourTurn)
   \<and> snd (steal_handler w_started 2 (CbStealTarget 1) 5) = StealSuccess 5
   \<and> map_option score (map_of (players (bot (fst (steal_handler w_started 2 (CbStealTarget 1) 5)))) 2) = Some 10
   \<and> map_option score (map_of (players (bot (fst (steal_handler w_started 2 (CbStealTarget 1) 5)))) 1) = Some (- 10)
   \<and> queue (bot (fst (steal_handler w_started 2 (CbStealTarget 1) 5))) = [2, 1]
   \<and> snd (steal_handler w_started 1 (CbStealTarget 1) 5) = StealSuccess 5
   \<and> queue (bot (fst (steal_handler w_started 1 (CbStealTarget 1) 5))) = [2, 1]"
  by (simp add: Let_def w_started_eq steal_handler_def advance_queue_def adjust_score_def ann_def bob_def)

section \<open>Guessing\<close>

lemmas handle_guess_word_alt = handle_guess_word_def [folded guess_word_def]

lemma guess_checked:
  assumes "passes_checks e w uid b text"
  shows "is_duplicate e (state_file w) b text \<Longrightarrow>
           handle_guess_word e w uid text t1 t2 = (w\<lparr>user_data := (user_data w)(uid := None)\<rparr>, DuplicateGuess)"
    and "\<not> is_duplicate e (state_file w) b text \<Longrightarrow> loc_closed (state_file w) b \<Longrightarrow>
           handle_guess_word e w uid text t1 t2 = (w\<lparr>user_data := (user_data w)(uid := None)\<rparr>, LocationClosed)"
proof -
  obtain p rest bld where p: "map_of (players (bot w)) uid = Some p"
    and q: "queue (bot w) = uid # rest"
    and c: "find (\<lambda>c. b_id c = b) (cfg_buildings e) = Some bld"
    using assms by (cases "queue (bot w)") (auto simp: passes_checks_def)
  have r: "state_game_active (bot w)" "user_data w uid = Some b"
    "length (guess_word e text) = 5" "str_lower e (guess_word e text) \<in> WORDS e"
    using assms by (simp_all add: passes_checks_def)
  show "is_duplicate e (state_file w) b text \<Longrightarrow>
           handle_guess_word e w uid text t1 t2 = (w\<lparr>user_data := (user_data w)(uid := None)\<rparr>, DuplicateGuess)"
    by (simp add: handle_guess_word_alt Let_def p q c r is_duplicate_def dyn_of_def
        split: option.splits)
  show "\<not> is_duplicate e (state_file w) b text \<Longrightarrow> loc_closed (state_file w) b \<Longrightarrow>
           handle_guess_word e w uid text t1 t2 = (w\<lparr>user_data := (user_data w)(uid := None)\<rparr>, LocationClosed)"
    by (simp add: handle_guess_word_alt Let_def p q c r is_duplicate_def loc_closed_def dyn_of_def
        split: option.splits)
qed







lemma last_attempt_record_attempt: "last_attempt (record_attempt d a s) = Some a"
  by (simp add: record_attempt_def Let_def)

lemma guess_rejected_early:
  assumes "\<not> passes_checks e w uid b text" and "user_data w uid = Some b \<or> user_data w uid = None"
  shows "bot (fst (handle_guess_word e w uid text t1 t2)) = bot w
       \<and> state_file (fst (handle_guess_word e w uid text t1 t2)) = state_file w
       \<and> \<not> accepted (snd (handle_guess_word e w uid text t1 t2))"
  using assms
  by (auto simp: handle_guess_word_alt Let_def passes_checks_def accepted_def
      split: option.splits list.splits)

lemma guess_accepted:
  assumes pc: "passes_checks e w uid b text"
    and nd: "\<not> is_duplicate e (state_file w) b text"
    and nc: "\<not> loc_closed (state_file w) b"
    and p: "map_of (players (bot w)) uid = Some p"
    and c: "find (\<lambda>c. b_id c = b) (cfg_buildings e) = Some bld"
    and cw: "compare_word (str_upper e) (guess_word e text) (target_word bld) = Inr colours"
  shows "handle_guess_word e w uid text t1 t2 =
     (let word = guess_word e text;
          p' = p\<lparr>score := score p + score_from colours, last_active := t1\<rparr>;
          a = \<lparr>a_user_id = uid, a_username = username p, a_time = t2, a_word = word\<rparr>;
          solved = (str_upper e word = str_upper e (target_word bld));
          state = load_json (state_file w);
          bs = (case dyn_of (state_file w) b of
                  None \<Rightarrow> get_buildings state
                | Some d \<Rightarrow> map (\<lambda>x. if dyn_id x \<noteq> b then x else record_attempt d a solved)
                              (get_buildings state));
          adv = advance_queue ((bot w)\<lparr>players := AList.update uid p' (players (bot w))\<rparr>)
      in (w\<lparr>user_data := (user_data w)(uid := None), bot := fst adv,
            state_file := Some (state\<lparr>sn_buildings := Some bs\<rparr>)\<rparr>,
          (case snd adv of Some err \<Rightarrow> Raised err
           | None \<Rightarrow> if solved then Solved colours else Scored colours (score_from colours))))"
proof -
  obtain rest where q: "queue (bot w) = uid # rest"
    using pc by (cases "queue (bot w)") (auto simp: passes_checks_def)
  have r: "state_game_active (bot w)" "user_data w uid = Some b"
    "length (guess_word e text) = 5" "str_lower e (guess_word e text) \<in> WORDS e"
    using pc by (simp_all add: passes_checks_def)
  have nd': "(case (case dyn_of (state_file w) b of None \<Rightarrow> None | Some d \<Rightarrow> last_attempt d) of
                None \<Rightarrow> False | Some a \<Rightarrow> str_upper e (a_word a) = guess_word e text) = False"
    using nd by (simp add: is_duplicate_def split: option.splits)
  have nc': "(case dyn_of (state_file w) b of None \<Rightarrow> False | Some d \<Rightarrow> is_closed d) = False"
    using nc by (simp add: loc_closed_def)
  show ?thesis
    using nd' nc'
    by (cases "find (\<lambda>d. dyn_id d = b) (get_buildings (load_json (state_file w)))")
       (simp_all add: handle_guess_word_alt Let_def p q c r cw dyn_of_def save_state_def)
qed

lemma guess_raised:
  assumes pc: "passes_checks e w uid b text"
    and nd: "\<not> is_duplicate e (state_file w) b text"
    and nc: "\<not> loc_closed (state_file w) b"
    and c: "find (\<lambda>c. b_id c = b) (cfg_buildings e) = Some bld"
    and cw: "compare_word (str_upper e) (guess_word e text) (target_word bld) = Inl err"
  shows "handle_guess_word e w uid text t1 t2 =
           (w\<lparr>user_data := (user_data w)(uid := None)\<rparr>, Raised err)"
proof -
  obtain rest p where q: "queue (bot w) = uid # rest" and p: "map_of (players (bot w)) uid = Some p"
    using pc by (cases "queue (bot w)") (auto simp: passes_checks_def)
  have r: "state_game_active (bot w)" "user_data w uid = Some b"
    "length (guess_word e text) = 5" "str_lower e (guess_word e text) \<in> WORDS e"
    using pc by (simp_all add: passes_checks_def)
  have nd': "(case (case dyn_of (state_file w) b of None \<Rightarrow> None | Some d \<Rightarrow> last_attempt d) of
                None \<Rightarrow> False | Some a \<Rightarrow> str_upper e (a_word a) = guess_word e text) = False"
    using nd by (simp add: is_duplicate_def split: option.splits)
  have nc': "(case dyn_of (state_file w) b of None \<Rightarrow> False | Some d \<Rightarrow> is_closed d) = False"
    using nc by (simp add: loc_closed_def)
  show ?thesis
    using nd' nc'
    by (simp add: handle_guess_word_alt Let_def p q c r cw dyn_of_def)
qed









lemma guess_cases:
  obtains (same) "bot (fst (handle_guess_word e w uid text t1 t2)) = bot w"
      and "state_file (fst (handle_guess_word e w uid text t1 t2)) = state_file w"
      and "\<not> accepted (snd (handle_guess_word e w uid text t1 t2))"
  | (upd) b bld p colours where "passes_checks e w uid b text"
      and "\<not> is_duplicate e (state_file w) b text"
      and "\<not> loc_closed (state_file w) b"
      and "map_of (players (bot w)) uid = Some p"
      and "find (\<lambda>c. b_id c = b) (cfg_buildings e) = Some bld"
      and "compare_word (str_upper e) (guess_word e text) (target_word bld) = Inr colours"
proof (cases "user_data w uid")
  case None
  then have "\<not> passes_checks e w uid 0 text" by (simp add: passes_checks_def)
  then show ?thesis using None guess_rejected_early [of e w uid 0 "text" t1 t2]
    by (intro same) simp_all
next
  case (Some b)
  show ?thesis
  proof (cases "passes_checks e w uid b text")
    case False
    then show ?thesis using Some guess_rejected_early [of e w uid b "text" t1 t2]
      by (intro same) simp_all
  next
    case pc: True
    then obtain p bld where p: "map_of (players (bot w)) uid = Some p"
      and c: "find (\<lambda>c. b_id c = b) (cfg_buildings e) = Some bld"
      by (auto simp: passes_checks_def)
    show ?thesis
    proof (cases "is_duplicate e (state_file w) b text")
      case True
      then show ?thesis by (intro same) (simp_all add: guess_checked(1) [OF pc] accepted_def)
    next
      case nd: False
      show ?thesis
      proof (cases "loc_closed (state_file w) b")
        case True
        then show ?thesis
          by (intro same) (simp_all add: guess_checked(2) [OF pc nd] accepted_def)
      next
        case nc: False
        show ?thesis
        proof (cases "compare_word (str_upper e) (guess_word e text) (target_word bld)")
          case (Inl err)
          show ?thesis
            by (intro same) (simp_all add: guess_raised [OF pc nd nc c Inl] accepted_def)
        next
          case (Inr colours)
          show ?thesis by (rule upd [OF pc nd nc p c Inr])
        qed
      qed
    qed
  qed
qed

lemma advance_queue_active:
  "state_game_active bd \<Longrightarrow> state_game_active (fst (advance_queue bd))"
  by (simp add: advance_queue_def Let_def split: list.splits option.splits)

lemma guess_active:
  "state_game_active (bot (fst (handle_guess_word e w uid text t1 t2))) = state_game_active (bot w)"
proof (cases rule: guess_cases [of e w uid "text" t1 t2])
  case same
  then show ?thesis by simp
next
  case (upd b bld p colours)
  have "state_game_active (bot w)" using upd(1) by (simp add: passes_checks_def)
  then show ?thesis
    by (simp add: guess_accepted [OF upd] Let_def advance_queue_active)
qed

lemma guess_game_state:
  "state_game_active (bot w) = (sn_game_state (load_json (state_file w)) = Some ''active'') \<Longrightarrow>
   sn_game_state (load_json (state_file (fst (handle_guess_word e w uid text t1 t2)))) =
   sn_game_state (load_json (state_file w))"
proof (cases rule: guess_cases [of e w uid "text" t1 t2])
  case same
  then show ?thesis by simp
next
  case (upd b bld p colours)
  show ?thesis
    by (simp add: guess_accepted [OF upd] Let_def) (simp add: load_json_def)
qed

lemma join_frame:
  "state_file (fst (join w uid un fn now)) = state_file w"
  "state_game_active (bot (fst (join w uid un fn now))) = state_game_active (bot w)"
  by (simp_all add: join_def Let_def)

lemma steal_frame:
  "state_file (fst (steal_handler w uid data dice)) = state_file w"
  "state_game_active (bot (fst (steal_handler w uid data dice))) = state_game_active (bot w)"
  by (auto simp: steal_handler_def Let_def advance_queue_active
      split: option.splits callback.splits list.splits)



lemma begin_status:
  "state_game_active (bot w) = (sn_game_state (load_json (state_file w)) = Some ''active'') \<Longrightarrow>
   state_game_active (bot (fst (begin_game e sh w uid))) =
     (sn_game_state (load_json (state_file (fst (begin_game e sh w uid)))) = Some ''active'')"
  by (auto simp: begin_game_def Let_def save_state_def load_json_def
      split: list.splits option.splits)


lemma callback_status:
  "state_game_active (bot w) = (sn_game_state (load_json (state_file w)) = Some ''active'') \<Longrightarrow>
   state_game_active (bot (fst (callback_handler e w uid data dice))) =
     (sn_game_state (load_json (state_file (fst (callback_handler e w uid data dice)))) = Some ''active'')"
  by (cases data)
     (simp_all add: callback_handler_def Let_def steal_frame reset_game_def load_json_def
        empty_snapshot_def)


lemma step_status:
  assumes "state_game_active (bot w) = (sn_game_state (load_json (state_file w)) = Some ''active'')"
  shows "state_game_active (bot (fst (step e w ev))) =
     (sn_game_state (load_json (state_file (fst (step e w ev)))) = Some ''active'')"
proof (cases ev)
  case (Join uid un fn now)
  then show ?thesis using assms by (simp add: join_frame)
next
  case (Begin uid sh)
  then show ?thesis using assms by (simp add: begin_status)
next
  case (Text uid msg t1 t2)
  then show ?thesis using assms by (simp add: guess_active guess_game_state)
next
  case (Callback uid data dice)
  then show ?thesis using assms by (simp add: callback_status)
qed

lemma reachable_status:
  "reachable e admin w \<Longrightarrow>
   state_game_active (bot w) = (sn_game_state (load_json (state_file w)) = Some ''active'')"
proof (induction rule: reachable.induct)
  case start
  show ?case by (simp add: main_def load_json_def empty_snapshot_def)
next
  case (after w ev)
  show ?case by (rule step_status [OF after.IH])
qed

section \<open>The example run, evaluated\<close>

lemma w_pick1_eq:
  "bot w_pick1 = bot w_started" "state_file w_pick1 = Some snap0"
  "user_data w_pick1 1 = Some 1" "user_data w_pick1 2 = None"
  by (simp_all add: w_pick1_def w_started_eq callback_handler_def Let_def is_guess_data_def)

lemma strip_examples:
  "ascii_strip ''cheap'' = ''cheap''" "ascii_strip ''peach'' = ''peach''"
  "ascii_strip '' Cheap '' = ''Cheap''" "ascii_strip ''Peach'' = ''Peach''"
  by (simp_all add: ascii_strip_def ascii_isspace_def)

lemma upper_examples:
  "ascii_upper ''cheap'' = ''CHEAP''" "ascii_upper ''peach'' = ''PEACH''"
  "ascii_upper ''Cheap'' = ''CHEAP''" "ascii_upper ''Peach'' = ''PEACH''"
  "ascii_upper ''CHEAP'' = ''CHEAP''" "ascii_upper ''PEACH'' = ''PEACH''"
  by (simp_all add: upper_simps)

lemma lower_examples:
  "ascii_lower ''CHEAP'' = ''cheap''" "ascii_lower ''PEACH'' = ''peach''"
  by (simp_all add: lower_simps)

lemma guess_word_examples:
  "guess_word env0 ''cheap'' = ''CHEAP''" "guess_word env0 ''peach'' = ''PEACH''"
  "guess_word env0 '' Cheap '' = ''CHEAP''" "guess_word env0 ''Peach'' = ''PEACH''"
  by (simp_all add: guess_word_def env0_def strip_examples upper_examples)

lemma compare_examples:
  "compare_word ascii_upper ''CHEAP'' ''PEACH'' =
     Inr [''yellow'', ''yellow'', ''yellow'', ''yellow'', ''yellow'']"
  "compare_word ascii_upper ''PEACH'' ''PEACH'' =
     Inr [''green'', ''green'', ''green'', ''green'', ''green'']"
  by (simp_all add: compare_word_def upper_examples)

lemma pc1: "passes_checks env0 w_pick1 1 1 ''cheap''"
  by (simp add: passes_checks_def guess_word_examples w_pick1_eq w_started_eq upper_examples
      lower_examples) (simp add: env0_def lower_examples)

lemmas eval_simps = handle_guess_word_def Let_def callback_handler_def is_guess_data_def
  advance_queue_def load_json_def save_state_def get_buildings_def record_attempt_def
  score_from_def compare_examples strip_examples upper_examples lower_examples env0_def

lemma w_tried_eq:
  "bot w_tried = \<lparr>admin_id = 0,
                   players = [(1, ann\<lparr>score := 25, last_active := ''t3''\<rparr>), (2, bob)],
                   queue = [2, 1], state_game_active = True\<rparr>"
  "state_file w_tried = Some snap_tried"
  "user_data w_tried 1 = None" "user_data w_tried 2 = None"
  by (simp_all add: w_tried_def w_pick1_eq w_started_eq eval_simps snap0_def snap_tried_def
      cheap_by_ann_def ann_def)

lemma w_pick2_eq:
  "bot w_pick2 = bot w_tried" "state_file w_pick2 = Some snap_tried"
  "user_data w_pick2 1 = None" "user_data w_pick2 2 = Some 1"
  by (simp_all add: w_pick2_def w_tried_eq callback_handler_def Let_def is_guess_data_def)

lemma w_closed_eq:
  "bot w_closed = \<lparr>admin_id = 0,
                    players = [(1, ann\<lparr>score := 25, last_active := ''t3''\<rparr>),
                               (2, bob\<lparr>score := 50, last_active := ''t5''\<rparr>)],
                    queue = [1, 2], state_game_active = True\<rparr>"
  "state_file w_closed = Some snap_closed"
  "user_data w_closed 1 = None" "user_data w_closed 2 = None"
  by (simp_all add: w_closed_def w_pick2_eq w_tried_eq eval_simps snap_tried_def snap_closed_def
      peach_by_bob_def cheap_by_ann_def bob_def)

lemma w_pick3_eq:
  "bot w_pick3 = bot w_closed" "state_file w_pick3 = Some snap_closed"
  "user_data w_pick3 1 = Some 1" "user_data w_pick3 2 = None"
  by (simp_all add: w_pick3_def w_closed_eq callback_handler_def Let_def is_guess_data_def)

section \<open>How a guess changes the closed flags\<close>










section \<open>Rejected guesses\<close>

text \<open>
  Claim C2. A guess that passes the checks made before the snapshot is read and whose
  word equals the upper-cased word of the last recorded attempt at the pending location
  (the test of the code, \<^verbatim>\<open>last["word"].upper() == word\<close> with \<^verbatim>\<open>word\<close> the stripped and
  upper-cased text) is answered with \<open>DuplicateGuess\<close>; the queue, the players with their
  scores and the snapshot file (every location's attempt record and closed flag) stay as
  they were. The handler has by then dropped the user's pending location from
  \<open>user_data\<close>. This holds for all string methods and all characters.
\<close>

theorem duplicate_guess_rejected:
  assumes "passes_checks e w uid b text" and "is_duplicate e (state_file w) b text"
  shows "handle_guess_word e w uid text t1 t2 =
           (w\<lparr>user_data := (user_data w)(uid := None)\<rparr>, DuplicateGuess)
       \<and> queue (bot (fst (handle_guess_word e w uid text t1 t2))) = queue (bot w)
       \<and> players (bot (fst (handle_guess_word e w uid text t1 t2))) = players (bot w)
       \<and> state_file (fst (handle_guess_word e w uid text t1 t2)) = state_file w"
  by (simp add: guess_checked(1) [OF assms])

lemma pc_pick2: "passes_checks env0 w_pick2 2 1 '' Cheap ''"
  by (simp add: passes_checks_def guess_word_examples w_pick2_eq w_tried_eq)
     (simp add: env0_def lower_examples)

lemma dup_pick2: "is_duplicate env0 (state_file w_pick2) 1 '' Cheap ''"
  by (simp add: is_duplicate_def guess_word_examples dyn_of_def w_pick2_eq load_json_def
      get_buildings_def snap_tried_def cheap_by_ann_def)
     (simp add: env0_def upper_examples)

theorem duplicate_guess_rejected_witness:
  "passes_checks env0 w_pick2 2 1 '' Cheap ''
   \<and> is_duplicate env0 (state_file w_pick2) 1 '' Cheap ''
   \<and> snd (handle_guess_word env0 w_pick2 2 '' Cheap '' ''t5'' ''t6'') = DuplicateGuess
   \<and> queue (bot (fst (handle_guess_word env0 w_pick2 2 '' Cheap '' ''t5'' ''t6''))) = [2, 1]
   \<and> state_file (fst (handle_guess_word env0 w_pick2 2 '' Cheap '' ''t5'' ''t6'')) = Some snap_tried"
  using duplicate_guess_rejected [OF pc_pick2 dup_pick2, of "''t5''" "''t6''"] pc_pick2 dup_pick2
  by (simp add: w_pick2_eq w_tried_eq)

text \<open>
  Claim C10. The duplicate check comes before the closed check: a guess at a closed
  location that passes the earlier checks is answered with \<open>DuplicateGuess\<close> when its
  word equals the upper-cased word of the location's last recorded attempt, and with
  \<open>LocationClosed\<close> otherwise; in both cases players, queue, active flag and snapshot
  file are unchanged. This holds for all string methods and all characters.
\<close>

theorem duplicate_check_before_closed_check:
  assumes "passes_checks e w uid b text" and "loc_closed (state_file w) b"
  shows "handle_guess_word e w uid text t1 t2 =
           (w\<lparr>user_data := (user_data w)(uid := None)\<rparr>,
            if is_duplicate e (state_file w) b text then DuplicateGuess else LocationClosed)
       \<and> bot (fst (handle_guess_word e w uid text t1 t2)) = bot w
       \<and> state_file (fst (handle_guess_word e w uid text t1 t2)) = state_file w"
proof (cases "is_duplicate e (state_file w) b text")
  case True
  then show ?thesis by (simp add: guess_checked(1) [OF assms(1)])
next
  case False
  then show ?thesis by (simp add: guess_checked(2) [OF assms(1) False assms(2)])
qed

lemma pc_pick3: "passes_checks env0 w_pick3 1 1 ''peach''" "passes_checks env0 w_pick3 1 1 ''cheap''"
  "passes_checks env0 w_pick3 1 1 ''Peach''"
  by (simp_all add: passes_checks_def guess_word_examples w_pick3_eq w_closed_eq)
     (simp_all add: env0_def lower_examples)

lemma closed_pick3: "loc_closed (state_file w_pick3) 1"
  by (simp add: loc_closed_def dyn_of_def w_pick3_eq load_json_def get_buildings_def snap_closed_def)

lemma dup_pick3: "is_duplicate env0 (state_file w_pick3) 1 ''peach''"
  "is_duplicate env0 (state_file w_pick3) 1 ''Peach''"
  "\<not> is_duplicate env0 (state_file w_pick3) 1 ''cheap''"
  by (simp_all add: is_duplicate_def guess_word_examples dyn_of_def w_pick3_eq load_json_def
      get_buildings_def snap_closed_def peach_by_bob_def)
     (simp_all add: env0_def upper_examples)

theorem duplicate_check_before_closed_check_witness:
  "passes_checks env0 w_pick3 1 1 ''peach''
   \<and> loc_closed (state_file w_pick3) 1
   \<and> snd (handle_guess_word env0 w_pick3 1 ''peach'' ''t7'' ''t8'') = DuplicateGuess
   \<and> snd (handle_guess_word env0 w_pick3 1 ''cheap'' ''t7'' ''t8'') = LocationClosed
   \<and> bot (fst (handle_guess_word env0 w_pick3 1 ''peach'' ''t7'' ''t8'')) = bot w_closed
   \<and> state_file (fst (handle_guess_word env0 w_pick3 1 ''peach'' ''t7'' ''t8'')) = Some snap_closed"
  using duplicate_check_before_closed_check [OF pc_pick3(1) closed_pick3, of "''t7''" "''t8''"]
    duplicate_check_before_closed_check [OF pc_pick3(2) closed_pick3, of "''t7''" "''t8''"]
    pc_pick3 closed_pick3 dup_pick3
  by (simp add: w_pick3_eq)


section \<open>The closed flag\<close>








section \<open>The snapshot\<close>

lemma reachable_run: "reachable e admin w \<Longrightarrow> reachable e admin (run e w evs)"
  by (induction evs arbitrary: w) (simp_all add: reachable.after)

lemma reachable_started: "reachable env0 0 w_started"
  unfolding w_started_def w_joined_def
  by (intro reachable.after reachable_run reachable.start)

lemma begin_snapshot:
  "(if uid = admin_id (bot w) \<and> players (bot w) \<noteq> []
    then sn_queue (load_json (state_file (fst (begin_game e sh w uid)))) =
           Some (queue (bot (fst (begin_game e sh w uid))))
       \<and> sn_game_state (load_json (state_file (fst (begin_game e sh w uid)))) = Some ''active''
       \<and> state_game_active (bot (fst (begin_game e sh w uid)))
       \<and> get_buildings (load_json (state_file (fst (begin_game e sh w uid)))) =
           (if get_buildings (load_json (state_file w)) = [] then fresh_buildings e
            else get_buildings (load_json (state_file w)))
    else fst (begin_game e sh w uid) = w)"
  by (auto simp: begin_game_def Let_def save_state_def load_json_def get_buildings_def
      split: list.splits option.splits)

text \<open>
  Claim C1, as amended. \<open>load_json\<close> returns what \<open>save_state\<close> stored, and the empty
  dictionary when there is no file. The snapshot has the keys buildings, queue and
  game_state only; a start of the process sets up an empty registry, an empty queue and
  an inactive game whatever the file holds. In every state reached from a start without
  a snapshot file the stored status is \<open>"active"\<close> exactly when the game is active, and a
  \<open>begin\<close> by the administrator with players present stores the queue it has just
  shuffled, the status \<open>"active"\<close> and the location states (fresh ones when none are
  stored, the stored ones otherwise).
\<close>

theorem snapshot_round_trip:
  assumes "reachable e admin w"
  shows "load_json (save_state d) = d
       \<and> load_json None = empty_snapshot
       \<and> bot (main admin' file) =
           \<lparr>admin_id = admin', players = [], queue = [], state_game_active = False\<rparr>
       \<and> state_game_active (bot w) = (sn_game_state (load_json (state_file w)) = Some ''active'')
       \<and> (if uid = admin_id (bot w) \<and> players (bot w) \<noteq> []
           then sn_queue (load_json (state_file (fst (begin_game e sh w uid)))) =
                  Some (queue (bot (fst (begin_game e sh w uid))))
              \<and> sn_game_state (load_json (state_file (fst (begin_game e sh w uid)))) =
                  Some ''active''
              \<and> state_game_active (bot (fst (begin_game e sh w uid)))
              \<and> get_buildings (load_json (state_file (fst (begin_game e sh w uid)))) =
                  (if get_buildings (load_json (state_file w)) = [] then fresh_buildings e
                   else get_buildings (load_json (state_file w)))
           else fst (begin_game e sh w uid) = w)"
proof -
  have a: "load_json (save_state d) = d" "load_json None = empty_snapshot"
    by (simp_all add: load_json_def save_state_def)
  have b: "bot (main admin' file) =
           \<lparr>admin_id = admin', players = [], queue = [], state_game_active = False\<rparr>"
    by (simp add: main_def)
  show ?thesis
    using a b reachable_status [OF assms] begin_snapshot [of uid w e sh] by simp
qed

theorem snapshot_round_trip_witness:
  "reachable env0 0 w_started
   \<and> state_game_active (bot w_started)
   \<and> sn_game_state (load_json (state_file w_started)) = Some ''active''
   \<and> load_json (save_state snap0) = snap0"
proof -
  note T = snapshot_round_trip [OF reachable_started, of snap0 0 None 0 "\<lambda>xs. xs"]
  have act: "state_game_active (bot w_started)" by (simp add: w_started_eq)
  have rt: "load_json (save_state snap0) = snap0" using T by (rule conjunct1)
  have st: "state_game_active (bot w_started) =
              (sn_game_state (load_json (state_file w_started)) = Some ''active'')"
    using T [THEN conjunct2, THEN conjunct2, THEN conjunct2] by (rule conjunct1)
  show ?thesis using reachable_started act rt st by simp
qed

text \<open>
  Against claim C1 as stated: a resolved steal changes scores and queue and leaves the
  snapshot file as it was, so two different sessions have the same snapshot; the snapshot
  of \<open>w_started\<close> is \<open>snap0\<close>, which holds no player, and a start of the process on that
  file does not give the session back.
\<close>

theorem snapshot_round_trip_counterexample:
  "state_file (fst (steal_handler w_started 1 (CbStealTarget 2) 5)) = state_file w_started
   \<and> players (bot (fst (steal_handler w_started 1 (CbStealTarget 2) 5))) \<noteq> players (bot w_started)
   \<and> queue (bot (fst (steal_handler w_started 1 (CbStealTarget 2) 5))) \<noteq> queue (bot w_started)
   \<and> load_json (state_file w_started) = snap0
   \<and> bot (main 0 (state_file w_started)) \<noteq> bot w_started"
  by (simp add: w_started_eq steal_handler_def Let_def advance_queue_def adjust_score_def
      load_json_def main_def ann_def bob_def)

end
